theory Spec2Isabelle
  imports Main
begin

section \<open>The notebooks and the libraries they call\<close>

text \<open>
  The repository is three Jupyter notebooks. Their code cells define four functions
  (\<open>ask\<close>, \<open>num_tokens\<close>, \<open>create_embeddings\<close>, \<open>ask_with_context\<close>) and otherwise call
  the OpenAI SDK, tiktoken, LangChain's text splitter and the Qdrant client. None of these
  libraries belongs to the repository, so each library call is an oracle of the
  environment: a function of the calls made so far and of the arguments, which answers
  with a value or raises. A program threads the list of calls made so far, appends every
  call it makes, and stops at the first exception, as a notebook run does.

  Embedding components and similarity scores are Python floats. The code never computes
  with them, so their type is left as the parameter \<open>'f\<close>.
\<close>

subsection \<open>Values\<close>

datatype py_error = SdkError string | IndexError | OSError string

type_synonym 'f vector = "'f list"

text \<open>The keyword arguments of \<open>client.chat.completions.create\<close>; a message is a dict.\<close>

record chat_request =
  chat_model :: string
  chat_messages :: "(string \<rightharpoonup> string) list"
  chat_temperature :: int

text \<open>The fields of the chat completion object that the cells read.\<close>

record completion_message =
  content :: "string option"

record choice =
  message :: completion_message

record completion_usage =
  completion_tokens :: nat

record chat_completion =
  choices :: "choice list"
  usage :: completion_usage

record 'f embedding_item =
  embedding :: "'f vector"

record 'f create_embedding_response =
  data :: "'f embedding_item list"

record document =
  page_content :: string

text \<open>The keyword arguments of \<open>RecursiveCharacterTextSplitter\<close>.\<close>

record splitter_config =
  chunk_size :: nat
  chunk_overlap :: nat
  length_function :: "string \<Rightarrow> nat"
  is_separator_regex :: bool

datatype distance = Cosine | Euclid | Dot | Manhattan

record vector_params =
  vp_size :: nat
  vp_distance :: distance

record 'f point_struct =
  point_id :: int
  point_vector :: "'f vector"
  payload :: "string \<rightharpoonup> string"

record 'f scored_point =
  hit_id :: int
  score :: 'f

text \<open>What a cell prints or shows as its value.\<close>

datatype 'f pyval =
    StrVal string
  | NoneVal
  | IntVal int
  | FloatVal 'f
  | ListVal "'f pyval list"
  | TupleVal "'f pyval list"
  | JsonVal chat_completion

subsection \<open>Calls into the outside world\<close>

text \<open>
  One constructor for each library call that occurs in a cell, with its arguments.
  \<open>WriteText\<close> is \<open>Path.write_text\<close>, the counterpart of the \<open>read_text\<close> the search
  notebook uses: no cell calls it, and with it "no cell writes a file" is a property that a
  program can fail.
\<close>

datatype 'f effect =
    LoadDotenv
  | OpenAIClient
  | ReadText string
  | WriteText string string
  | ChatCompletionsCreate chat_request
  | EmbeddingsCreate "string list" string
  | EncodingForModel string
  | Encode string string
  | CreateDocuments splitter_config "string list"
  | QdrantClient string
  | RecreateCollection string vector_params
  | UploadPoints string "'f point_struct list"
  | Search string "'f vector" nat
  | Print "'f pyval"
  | Display "'f pyval"

text \<open>
  The environment: one oracle per library call. Each takes the calls made before it, so
  that a remote service may answer the same request differently at different times and
  the vector store may answer from what was uploaded to it.
\<close>

record 'f env =
  load_dotenv :: "'f effect list \<Rightarrow> py_error + bool"
  openai_client :: "'f effect list \<Rightarrow> py_error + unit"
  read_text :: "'f effect list \<Rightarrow> string \<Rightarrow> py_error + string"
  chat_completions_create :: "'f effect list \<Rightarrow> chat_request \<Rightarrow> py_error + chat_completion"
  embeddings_create ::
    "'f effect list \<Rightarrow> string list \<Rightarrow> string \<Rightarrow> py_error + 'f create_embedding_response"
  encoding_for_model :: "'f effect list \<Rightarrow> string \<Rightarrow> py_error + string"
  encode :: "'f effect list \<Rightarrow> string \<Rightarrow> string \<Rightarrow> py_error + nat list"
  create_documents ::
    "'f effect list \<Rightarrow> splitter_config \<Rightarrow> string list \<Rightarrow> py_error + document list"
  qdrant_client :: "'f effect list \<Rightarrow> string \<Rightarrow> py_error + unit"
  recreate_collection :: "'f effect list \<Rightarrow> string \<Rightarrow> vector_params \<Rightarrow> py_error + bool"
  upload_points :: "'f effect list \<Rightarrow> string \<Rightarrow> 'f point_struct list \<Rightarrow> py_error + unit"
  search ::
    "'f effect list \<Rightarrow> string \<Rightarrow> 'f vector \<Rightarrow> nat \<Rightarrow> py_error + 'f scored_point list"

subsection \<open>Programs\<close>

type_synonym ('f, 'a) prog = "'f effect list \<Rightarrow> 'f effect list \<times> (py_error + 'a)"

definition return :: "'a \<Rightarrow> ('f, 'a) prog" where
  "return a h = (h, Inr a)"

text \<open>Sequencing: an exception of the first part ends the program.\<close>

definition bind :: "('f, 'a) prog \<Rightarrow> ('a \<Rightarrow> ('f, 'b) prog) \<Rightarrow> ('f, 'b) prog" where
  "bind m f h = (case m h of (h', Inl e) \<Rightarrow> (h', Inl e) | (h', Inr a) \<Rightarrow> f a h')"

text \<open>A library call: it is recorded, and the oracle answers from the calls before it.\<close>

definition call :: "'f effect \<Rightarrow> ('f effect list \<Rightarrow> py_error + 'a) \<Rightarrow> ('f, 'a) prog" where
  "call e oracle h = (h @ [e], oracle h)"

text \<open>A pure Python expression that may raise.\<close>

definition lift :: "py_error + 'a \<Rightarrow> ('f, 'a) prog" where
  "lift r h = (h, r)"

definition len :: "'a list \<Rightarrow> int" where
  "len xs = int (length xs)"

text \<open>
  \<open>xs[i]\<close> for a list: positions \<open>0 .. len(xs)-1\<close> from the front, \<open>-1 .. -len(xs)\<close> from
  the back, IndexError for any other index.
\<close>

definition getitem :: "'a list \<Rightarrow> int \<Rightarrow> py_error + 'a" where
  "getitem xs i =
     (if 0 \<le> i \<and> i < len xs then Inr (xs ! nat i)
      else if i < 0 \<and> - len xs \<le> i then Inr (xs ! nat (len xs + i))
      else Inl IndexError)"

text \<open>\<open>sep.join(xs)\<close>.\<close>

fun join :: "string \<Rightarrow> string list \<Rightarrow> string" where
  "join sep [] = []"
| "join sep [x] = x"
| "join sep (x # y # ys) = x @ sep @ join sep (y # ys)"

text \<open>\<open>for x in xs\<close> with a body that may raise: the first exception ends the loop.\<close>

fun traverse :: "('a \<Rightarrow> py_error + 'b) \<Rightarrow> 'a list \<Rightarrow> py_error + 'b list" where
  "traverse f [] = Inr []"
| "traverse f (x # xs) =
     (case f x of
        Inl e \<Rightarrow> Inl e
      | Inr y \<Rightarrow> (case traverse f xs of Inl e \<Rightarrow> Inl e | Inr ys \<Rightarrow> Inr (y # ys)))"

text \<open>\<open>str(n)\<close> for a length, as an f-string renders it.\<close>

fun str_nat :: "nat \<Rightarrow> string" where
  "str_nat n =
     (if n < 10 then [char_of (48 + n)] else str_nat (n div 10) @ [char_of (48 + n mod 10)])"

definition print :: "'f pyval \<Rightarrow> ('f, unit) prog" where
  "print v = call (Print v) (\<lambda>h. Inr ())"

text \<open>The value of a cell's last expression is shown, unless it is None.\<close>

definition display :: "'f pyval \<Rightarrow> ('f, unit) prog" where
  "display v = (if v = NoneVal then return () else call (Display v) (\<lambda>h. Inr ()))"

definition str_or_none :: "string option \<Rightarrow> 'f pyval" where
  "str_or_none s = (case s of None \<Rightarrow> NoneVal | Some t \<Rightarrow> StrVal t)"

section \<open>Week1-Lecture2-Search-101\<close>

subsection \<open>The functions the notebook defines\<close>

definition MODEL :: string where
  "MODEL = ''gpt-3.5-turbo-0125''"

definition EMBEDDING_MODEL :: string where
  "EMBEDDING_MODEL = ''text-embedding-3-small''"

text \<open>
  \<^verbatim>\<open>
  def ask(query: str, model: str = MODEL) -> str:
      response = client.chat.completions.create(
          model=model,
          messages=[
              {"role": "system", "content": "You are a helpful assistant."},
              {"role": "user", "content": query},
          ],
          temperature=0,
      )
      return response.choices[0].message.content
  \<close>
  The content of a completion message may be None.
\<close>

definition ask_request :: "string \<Rightarrow> string \<Rightarrow> chat_request" where
  "ask_request query model =
     \<lparr>chat_model = model,
      chat_messages =
        [[''role'' \<mapsto> ''system'', ''content'' \<mapsto> ''You are a helpful assistant.''],
         [''role'' \<mapsto> ''user'', ''content'' \<mapsto> query]],
      chat_temperature = 0\<rparr>"

definition ask :: "'f env \<Rightarrow> string \<Rightarrow> string \<Rightarrow> ('f, string option) prog" where
  "ask env query model =
     bind (call (ChatCompletionsCreate (ask_request query model))
             (\<lambda>h. chat_completions_create env h (ask_request query model)))
       (\<lambda>response. bind (lift (getitem (choices response) 0))
          (\<lambda>c. return (content (message c))))"

text \<open>
  \<^verbatim>\<open>
  def num_tokens(text: str, model: str = MODEL) -> int:
      encoding = tiktoken.encoding_for_model(model)
      return len(encoding.encode(text))
  \<close>
\<close>

definition num_tokens :: "'f env \<Rightarrow> string \<Rightarrow> string \<Rightarrow> ('f, nat) prog" where
  "num_tokens env text model =
     bind (call (EncodingForModel model) (\<lambda>h. encoding_for_model env h model))
       (\<lambda>encoding. bind (call (Encode encoding text) (\<lambda>h. encode env h encoding text))
          (\<lambda>tokens. return (length tokens)))"

text \<open>
  \<^verbatim>\<open>
  def create_embeddings(texts: List[str], model: str = EMBEDDING_MODEL) -> List[str]:
      return client.embeddings.create(
          input=texts,
          model=model,
      )
  \<close>
\<close>

definition create_embeddings ::
  "'f env \<Rightarrow> string list \<Rightarrow> string \<Rightarrow> ('f, 'f create_embedding_response) prog" where
  "create_embeddings env texts model =
     call (EmbeddingsCreate texts model) (\<lambda>h. embeddings_create env h texts model)"

text \<open>
  \<^verbatim>\<open>
  def ask_with_context(query: str, context: List[str], model: str = MODEL) -> str:
      introduction = """Use the below writing from Paul Graham to answer the subsequent
   question. If the answer cannot be found in the articles, write "I could not find an
   answer."""
      question = f"\n\nQuestion: {query}\n\n"
      context = "\n\n".join(context)
      return ask(introduction + context + question, model)
  \<close>
  The introduction is one line in the source. Its triple-quoted literal ends at the first
  three quotes, so the text ends with \<open>answer.\<close> and keeps the quote before \<open>I\<close>.
\<close>

definition introduction :: string where
  "introduction =
     ''Use the below writing from Paul Graham to answer the subsequent question. '' @
     ''If the answer cannot be found in the articles, write '' @ [CHR 0x22] @
     ''I could not find an answer.''"

definition question :: "string \<Rightarrow> string" where
  "question query = ''\<newline>\<newline>Question: '' @ query @ ''\<newline>\<newline>''"

definition ask_with_context ::
  "'f env \<Rightarrow> string \<Rightarrow> string list \<Rightarrow> string \<Rightarrow> ('f, string option) prog" where
  "ask_with_context env query context model =
     ask env (introduction @ join ''\<newline>\<newline>'' context @ question query) model"

subsection \<open>The cells\<close>

definition the_query :: string where
  "the_query = ''What did Paul Graham do in Summer of 2016?''"

definition essay_path :: string where
  "essay_path = ''../data/paul_graham/paul_graham_essay.txt''"

definition cell_setup :: "'f env \<Rightarrow> ('f, unit) prog" where
  "cell_setup env =
     bind (call LoadDotenv (load_dotenv env)) (\<lambda>loaded. call OpenAIClient (openai_client env))"

definition cell_text :: "'f env \<Rightarrow> ('f, string) prog" where
  "cell_text env = call (ReadText essay_path) (\<lambda>h. read_text env h essay_path)"

definition cell_ask :: "'f env \<Rightarrow> ('f, unit) prog" where
  "cell_ask env = bind (ask env the_query MODEL) (\<lambda>out. display (str_or_none out))"

definition cell_num_tokens :: "'f env \<Rightarrow> string \<Rightarrow> ('f, unit) prog" where
  "cell_num_tokens env text =
     bind (num_tokens env text MODEL) (\<lambda>n. display (IntVal (int n)))"

text \<open>
  \<^verbatim>\<open>
  text_splitter = RecursiveCharacterTextSplitter(
      chunk_size=1024,
      chunk_overlap=96,
      length_function=len,
      is_separator_regex=False,
  )
  texts = text_splitter.create_documents([text])
  context_text = [t.page_content for t in texts]
  len(context_text), context_text[0]
  \<close>
\<close>

definition text_splitter :: splitter_config where
  "text_splitter =
     \<lparr>chunk_size = 1024, chunk_overlap = 96, length_function = length,
      is_separator_regex = False\<rparr>"

text \<open>The two assignments of the chunking cell: \<open>texts\<close> and \<open>context_text\<close>.\<close>

definition chunking :: "'f env \<Rightarrow> string \<Rightarrow> ('f, document list \<times> string list) prog" where
  "chunking env text =
     bind (call (CreateDocuments text_splitter [text])
             (\<lambda>h. create_documents env h text_splitter [text]))
       (\<lambda>texts. let context_text = map page_content texts in return (texts, context_text))"

text \<open>The cell ends with the expression \<open>len(context_text), context_text[0]\<close>.\<close>

definition cell_chunk :: "'f env \<Rightarrow> string \<Rightarrow> ('f, document list \<times> string list) prog" where
  "cell_chunk env text =
     bind (chunking env text)
       (\<lambda>(texts, context_text). bind (lift (getitem context_text 0))
          (\<lambda>first. bind (display (TupleVal [IntVal (len context_text), StrVal first]))
             (\<lambda>u. return (texts, context_text))))"

definition cell_embed :: "'f env \<Rightarrow> string list \<Rightarrow> ('f, 'f create_embedding_response) prog" where
  "cell_embed env context_text =
     bind (create_embeddings env context_text EMBEDDING_MODEL)
       (\<lambda>response.
          bind (print (StrVal (''Number of documents: '' @ str_nat (length (data response)))))
            (\<lambda>u. return response))"

definition cell_vectors :: "'f create_embedding_response \<Rightarrow> ('f, 'f vector list) prog" where
  "cell_vectors response =
     (let vectors = map embedding (data response) in
      bind (lift (getitem vectors 0))
        (\<lambda>first. bind (display (TupleVal [IntVal (len vectors), IntVal (len first)]))
           (\<lambda>u. return vectors)))"

text \<open>
  The list comprehension that builds the points: \<open>vectors[i]\<close> and \<open>texts[i]\<close> for
  \<open>i\<close> in \<open>range(len(vectors))\<close>.
\<close>

definition point_at :: "'f vector list \<Rightarrow> document list \<Rightarrow> nat \<Rightarrow> py_error + 'f point_struct" where
  "point_at vectors texts i =
     (case getitem vectors (int i) of
        Inl e \<Rightarrow> Inl e
      | Inr v \<Rightarrow>
          (case getitem texts (int i) of
             Inl e \<Rightarrow> Inl e
           | Inr t \<Rightarrow>
               Inr \<lparr>point_id = int i, point_vector = v,
                    payload = [''content'' \<mapsto> page_content t]\<rparr>))"

definition make_points :: "'f vector list \<Rightarrow> document list \<Rightarrow> py_error + 'f point_struct list" where
  "make_points vectors texts = traverse (point_at vectors texts) [0..<length vectors]"

text \<open>
  \<^verbatim>\<open>
  qdrant_client = QdrantClient(":memory:")
  qdrant_client.recreate_collection('demo',
      vectors_config=models.VectorParams(size=1536, distance=models.Distance.COSINE))
  points = [
      models.PointStruct(id=i, vector=vectors[i], payload={"content":texts[i].page_content})
      for i in range(len(vectors))
  ]
  qdrant_client.upload_points(collection_name='demo', points=points)
  \<close>
\<close>

definition demo_params :: vector_params where
  "demo_params = \<lparr>vp_size = 1536, vp_distance = Cosine\<rparr>"

definition cell_index ::
  "'f env \<Rightarrow> 'f vector list \<Rightarrow> document list \<Rightarrow> ('f, 'f point_struct list) prog" where
  "cell_index env vectors texts =
     bind (call (QdrantClient '':memory:'') (\<lambda>h. qdrant_client env h '':memory:''))
       (\<lambda>client. bind (call (RecreateCollection ''demo'' demo_params)
                          (\<lambda>h. recreate_collection env h ''demo'' demo_params))
          (\<lambda>created. bind (lift (make_points vectors texts))
             (\<lambda>points. bind (call (UploadPoints ''demo'' points)
                               (\<lambda>h. upload_points env h ''demo'' points))
                (\<lambda>u. return points))))"

definition cell_query :: "'f env \<Rightarrow> ('f, 'f vector) prog" where
  "cell_query env =
     bind (create_embeddings env [the_query] EMBEDDING_MODEL)
       (\<lambda>response. bind (lift (getitem (data response) 0))
          (\<lambda>d. return (embedding d)))"

text \<open>
  \<^verbatim>\<open>
  search_results = qdrant_client.search(
      collection_name='demo', query_vector=query_vector, limit=2)
  neighbors = [hit.id for hit in search_results]
  distances = [hit.score for hit in search_results]
  print(neighbors)
  print(distances)
  \<close>
\<close>

definition cell_search ::
  "'f env \<Rightarrow> 'f vector \<Rightarrow> ('f, 'f scored_point list \<times> int list \<times> 'f list) prog" where
  "cell_search env query_vector =
     bind (call (Search ''demo'' query_vector 2) (\<lambda>h. search env h ''demo'' query_vector 2))
       (\<lambda>search_results.
          let neighbors = map hit_id search_results;
              distances = map score search_results
          in bind (print (ListVal (map IntVal neighbors)))
               (\<lambda>u. bind (print (ListVal (map FloatVal distances)))
                  (\<lambda>u. return (search_results, neighbors, distances))))"

text \<open>
  \<^verbatim>\<open>
  selected_context = [context_text[neighbors[0]]]
  ask_with_context("What did Paul Graham do in Summer of 2016?", selected_context)
  \<close>
\<close>

definition cell_answer ::
  "'f env \<Rightarrow> string list \<Rightarrow> int list \<Rightarrow> ('f, string list \<times> string option) prog" where
  "cell_answer env context_text neighbors =
     bind (lift (getitem neighbors 0))
       (\<lambda>nearest. bind (lift (getitem context_text nearest))
          (\<lambda>chunk. let selected_context = [chunk] in
             bind (ask_with_context env the_query selected_context MODEL)
               (\<lambda>answer. bind (display (str_or_none answer))
                  (\<lambda>u. return (selected_context, answer)))))"

text \<open>The notebook's variables after the last cell.\<close>

record 'f globals =
  g_text :: string
  g_texts :: "document list"
  g_context_text :: "string list"
  g_response :: "'f create_embedding_response"
  g_vectors :: "'f vector list"
  g_points :: "'f point_struct list"
  g_query_vector :: "'f vector"
  g_search_results :: "'f scored_point list"
  g_neighbors :: "int list"
  g_distances :: "'f list"
  g_selected_context :: "string list"
  g_answer :: "string option"

text \<open>The cells in order.\<close>

definition search_101 :: "'f env \<Rightarrow> ('f, 'f globals) prog" where
  "search_101 env =
     bind (cell_setup env) (\<lambda>u.
     bind (cell_text env) (\<lambda>text.
     bind (cell_ask env) (\<lambda>u.
     bind (cell_num_tokens env text) (\<lambda>u.
     bind (cell_chunk env text) (\<lambda>(texts, context_text).
     bind (cell_embed env context_text) (\<lambda>response.
     bind (cell_vectors response) (\<lambda>vectors.
     bind (cell_index env vectors texts) (\<lambda>points.
     bind (cell_query env) (\<lambda>query_vector.
     bind (cell_search env query_vector) (\<lambda>(search_results, neighbors, distances).
     bind (cell_answer env context_text neighbors) (\<lambda>(selected_context, answer).
     return
       \<lparr>g_text = text, g_texts = texts, g_context_text = context_text,
        g_response = response, g_vectors = vectors, g_points = points,
        g_query_vector = query_vector, g_search_results = search_results,
        g_neighbors = neighbors, g_distances = distances,
        g_selected_context = selected_context, g_answer = answer\<rparr>)))))))))))"

section \<open>Week1-Lecture1-Course-Introduction\<close>

definition msg :: "string \<Rightarrow> string \<Rightarrow> (string \<rightharpoonup> string)" where
  "msg r c = [''role'' \<mapsto> r, ''content'' \<mapsto> c]"

definition knock_request :: chat_request where
  "knock_request =
     \<lparr>chat_model = MODEL,
      chat_messages =
        [msg ''system'' ''You are a helpful assistant.'',
         msg ''user'' ''Knock knock.'',
         msg ''assistant'' ''Who's there?'',
         msg ''user'' ''Orange.''],
      chat_temperature = 0\<rparr>"

definition verbose_request :: chat_request where
  "verbose_request =
     \<lparr>chat_model = MODEL,
      chat_messages =
        [msg ''system'' ''You are a friendly and helpful teaching assistant.'',
         msg ''user'' ''Describe the weather in Nagpur in May''],
      chat_temperature = 0\<rparr>"

definition chat :: "'f env \<Rightarrow> chat_request \<Rightarrow> ('f, chat_completion) prog" where
  "chat env request =
     call (ChatCompletionsCreate request) (\<lambda>h. chat_completions_create env h request)"

text \<open>\<open>response.choices[0].message.content\<close>.\<close>

definition reply :: "chat_completion \<Rightarrow> ('f, 'f pyval) prog" where
  "reply response =
     bind (lift (getitem (choices response) 0))
       (\<lambda>c. return (str_or_none (content (message c))))"

definition course_introduction :: "'f env \<Rightarrow> ('f, unit) prog" where
  "course_introduction env =
     bind (cell_setup env) (\<lambda>u.
     bind (chat env knock_request) (\<lambda>response.
     bind (print (JsonVal response)) (\<lambda>u.
     bind (reply response) (\<lambda>out.
     bind (display out) (\<lambda>u.
     bind (chat env verbose_request) (\<lambda>response.
     bind (reply response) (\<lambda>out.
     bind (print out) (\<lambda>u.
     print (IntVal (int (completion_tokens (usage response))))))))))))"

section \<open>The chat completion examples\<close>

definition concise_request :: chat_request where
  "concise_request =
     \<lparr>chat_model = MODEL,
      chat_messages =
        [msg ''system'' ''You are a concise, crisp assistant.'',
         msg ''user'' ''Describe the weather in Nagpur in May''],
      chat_temperature = 0\<rparr>"

definition jargon_request :: chat_request where
  "jargon_request =
     \<lparr>chat_model = MODEL,
      chat_messages =
        [msg ''system''
           ''You are a helpful, pattern-following assistant who speaks plain English.'',
         msg ''user''
           ''Help me translate the following corporate jargon into plain English.'',
         msg ''assistant'' ''Sure, I'd be happy to!'',
         msg ''user'' ''New synergies will help drive top-line growth.'',
         msg ''assistant'' ''Things working well together will increase revenue.'',
         msg ''user''
           (''Let's circle back when we have more bandwidth to touch base on '' @
            ''opportunities for increased leverage.''),
         msg ''assistant'' ''Let's talk later when we're less busy about how to do better.''],
      chat_temperature = 0\<rparr>"

definition chat_examples :: "'f env \<Rightarrow> ('f, unit) prog" where
  "chat_examples env =
     bind (cell_setup env) (\<lambda>u.
     bind (chat env concise_request) (\<lambda>response.
     bind (reply response) (\<lambda>out.
     bind (print out) (\<lambda>u.
     bind (print (IntVal (int (completion_tokens (usage response))))) (\<lambda>u.
     bind (chat env jargon_request) (\<lambda>response.
     bind (reply response) (\<lambda>out.
     print out)))))))"

section \<open>Properties of a run\<close>

text \<open>The calls a program adds to the calls made before it.\<close>

definition emitted :: "('f, 'a) prog \<Rightarrow> 'f effect list \<Rightarrow> 'f effect list" where
  "emitted m h = drop (length h) (fst (m h))"

text \<open>
  Calls that access the local file system. \<open>load_dotenv\<close> reads the \<open>.env\<close> file into the
  process environment and \<open>Path.read_text\<close> reads a file. \<open>tiktoken.encoding_for_model\<close>
  loads the encoding from tiktoken's cache directory and, when it is not there yet,
  downloads it and writes it to the cache. \<open>Path.write_text\<close> stands for a write by a cell
  itself.
\<close>

fun writes_files :: "'f effect \<Rightarrow> bool" where
  "writes_files (WriteText path written) = True"
| "writes_files (EncodingForModel model) = True"
| "writes_files e = False"

fun touches_files :: "'f effect \<Rightarrow> bool" where
  "touches_files LoadDotenv = True"
| "touches_files (ReadText path) = True"
| "touches_files e = writes_files e"

text \<open>
  The calls the cells make, with the arguments the cells give them: the \<open>.env\<close> file and
  the essay are read, the chat model is \<open>MODEL\<close> at temperature 0, the embedding model is
  \<open>EMBEDDING_MODEL\<close>, the splitter is \<open>text_splitter\<close> on one document, the vector store is
  the in-memory one and its collection is \<open>demo\<close>, searched with limit 2. No cell writes a
  file.
\<close>

fun permitted :: "'f effect \<Rightarrow> bool" where
  "permitted LoadDotenv = True"
| "permitted OpenAIClient = True"
| "permitted (ReadText path) = (path = essay_path)"
| "permitted (WriteText path written) = False"
| "permitted (ChatCompletionsCreate request) =
     (chat_model request = MODEL \<and> chat_temperature request = 0)"
| "permitted (EmbeddingsCreate texts model) = (model = EMBEDDING_MODEL)"
| "permitted (EncodingForModel model) = (model = MODEL)"
| "permitted (Encode encoding text) = True"
| "permitted (CreateDocuments config documents) =
     (config = text_splitter \<and> length documents = 1)"
| "permitted (QdrantClient location) = (location = '':memory:'')"
| "permitted (RecreateCollection name params) = (name = ''demo'' \<and> params = demo_params)"
| "permitted (UploadPoints name points) = (name = ''demo'')"
| "permitted (Search name query_vector limit) = (name = ''demo'' \<and> limit = 2)"
| "permitted (Print v) = True"
| "permitted (Display v) = True"

text \<open>A permitted call that does not access the file system.\<close>

definition quiet :: "'f effect \<Rightarrow> bool" where
  "quiet e = (permitted e \<and> \<not> touches_files e)"

text \<open>Every call a program adds satisfies \<open>P\<close>, and the calls made before it are kept.\<close>

definition emits :: "('f effect \<Rightarrow> bool) \<Rightarrow> ('f, 'a) prog \<Rightarrow> bool" where
  "emits P m = (\<forall>h. \<exists>es. fst (m h) = h @ es \<and> list_all P es)"

definition file_free :: "'f effect list \<Rightarrow> bool" where
  "file_free es = list_all (\<lambda>e. \<not> touches_files e) es"

text \<open>
  The chunking step in the words of the specification: the imported splitter's
  \<open>create_documents\<close> on the single document, with chunk size 1024, overlap 96, \<open>len\<close> as
  length function and no regex separators; \<open>context_text\<close> is the page contents in order.
\<close>

definition chunking_spec ::
  "'f env \<Rightarrow> string \<Rightarrow> 'f effect list \<Rightarrow> py_error + document list \<times> string list" where
  "chunking_spec env text h =
     (case create_documents env h
             \<lparr>chunk_size = 1024, chunk_overlap = 96, length_function = length,
              is_separator_regex = False\<rparr> [text] of
        Inl e \<Rightarrow> Inl e
      | Inr documents \<Rightarrow> Inr (documents, map page_content documents))"

text \<open>
  The vector store returns stored points: every hit has the id of a point that was
  uploaded.
\<close>

definition stored_hits :: "'f point_struct list \<Rightarrow> 'f scored_point list \<Rightarrow> bool" where
  "stored_hits points hits = list_all (\<lambda>hit. hit_id hit \<in> set (map point_id points)) hits"

section \<open>A small environment to run the notebooks in\<close>

text \<open>
  Stand-ins for the libraries, over integer vectors: the splitter cuts after six
  characters, an embedding is the text's length and a constant, the chat model echoes the
  last message, and the vector store ranks the uploaded points by inner product.
\<close>

fun uploaded :: "'f effect list \<Rightarrow> string \<Rightarrow> 'f point_struct list" where
  "uploaded [] name = []"
| "uploaded (UploadPoints collection points # h) name =
     (if collection = name then points else []) @ uploaded h name"
| "uploaded (e # h) name = uploaded h name"

definition demo_sim :: "int vector \<Rightarrow> int vector \<Rightarrow> int" where
  "demo_sim u v = sum_list (map2 (*) u v)"

definition demo_search ::
  "int effect list \<Rightarrow> string \<Rightarrow> int vector \<Rightarrow> nat \<Rightarrow> py_error + int scored_point list" where
  "demo_search h name query_vector limit =
     Inr (take limit
            (sort_key (\<lambda>hit. - score hit)
               (map (\<lambda>p. \<lparr>hit_id = point_id p, score = demo_sim query_vector (point_vector p)\<rparr>)
                  (uploaded h name))))"

definition demo_chat :: "chat_request \<Rightarrow> chat_completion" where
  "demo_chat request =
     \<lparr>choices =
        [\<lparr>message =
            \<lparr>content =
               (case chat_messages request of [] \<Rightarrow> None | m # ms \<Rightarrow> last (m # ms) ''content'')\<rparr>\<rparr>],
      usage = \<lparr>completion_tokens = 1\<rparr>\<rparr>"

definition demo_env :: "int env" where
  "demo_env =
     \<lparr>load_dotenv = (\<lambda>h. Inr True),
      openai_client = (\<lambda>h. Inr ()),
      read_text = (\<lambda>h path. Inr ''Lisp. Then Y Combinator.''),
      chat_completions_create = (\<lambda>h request. Inr (demo_chat request)),
      embeddings_create =
        (\<lambda>h texts model. Inr \<lparr>data = map (\<lambda>t. \<lparr>embedding = [int (length t), 1]\<rparr>) texts\<rparr>),
      encoding_for_model = (\<lambda>h model. Inr ''cl100k_base''),
      encode = (\<lambda>h encoding text. Inr (map of_char text)),
      create_documents =
        (\<lambda>h config documents.
           Inr (concat (map (\<lambda>d. [\<lparr>page_content = take 6 d\<rparr>, \<lparr>page_content = drop 6 d\<rparr>])
                          documents))),
      qdrant_client = (\<lambda>h location. Inr ()),
      recreate_collection = (\<lambda>h name params. Inr True),
      upload_points = (\<lambda>h name points. Inr ()),
      search = demo_search\<rparr>"

text \<open>The same environment with every remote call failing.\<close>

definition offline_env :: "int env" where
  "offline_env =
     demo_env
       \<lparr>chat_completions_create := (\<lambda>h request. Inl (SdkError ''APIConnectionError'')),
        embeddings_create := (\<lambda>h texts model. Inl (SdkError ''APIConnectionError'')),
        encoding_for_model := (\<lambda>h model. Inl (SdkError ''APIConnectionError''))\<rparr>"

text \<open>The remote calls succeed, the tokenizer's \<open>encode\<close> fails.\<close>

definition encoder_fails_env :: "int env" where
  "encoder_fails_env = demo_env \<lparr>encode := (\<lambda>h encoding text. Inl (SdkError ''ValueError''))\<rparr>"

text \<open>The variables of the search notebook after a run in \<open>demo_env\<close>, and the calls made.\<close>

definition demo_globals :: "int globals" where
  "demo_globals =
     \<lparr>g_text = ''Lisp. Then Y Combinator.'',
      g_texts = [\<lparr>page_content = ''Lisp. ''\<rparr>, \<lparr>page_content = ''Then Y Combinator.''\<rparr>],
      g_context_text = [''Lisp. '', ''Then Y Combinator.''],
      g_response = \<lparr>data = [\<lparr>embedding = [6, 1]\<rparr>, \<lparr>embedding = [18, 1]\<rparr>]\<rparr>,
      g_vectors = [[6, 1], [18, 1]],
      g_points =
        [\<lparr>point_id = 0, point_vector = [6, 1], payload = [''content'' \<mapsto> ''Lisp. '']\<rparr>,
         \<lparr>point_id = 1, point_vector = [18, 1],
          payload = [''content'' \<mapsto> ''Then Y Combinator.'']\<rparr>],
      g_query_vector = [42, 1],
      g_search_results = [\<lparr>hit_id = 1, score = 757\<rparr>, \<lparr>hit_id = 0, score = 253\<rparr>],
      g_neighbors = [1, 0],
      g_distances = [757, 253],
      g_selected_context = [''Then Y Combinator.''],
      g_answer = Some (introduction @ ''Then Y Combinator.'' @ question the_query)\<rparr>"

definition demo_trace :: "int effect list" where
  "demo_trace = fst (search_101 demo_env [])"

section \<open>How programs run\<close>

lemma bind_Inr:
  "bind m f h = (h', Inr b) \<longleftrightarrow> (\<exists>h1 a. m h = (h1, Inr a) \<and> f a h1 = (h', Inr b))"
  by (auto simp: bind_def split: prod.splits sum.splits)

lemma return_Inr: "return a h = (h', Inr b) \<longleftrightarrow> h' = h \<and> b = a"
  by (auto simp: return_def)

lemma lift_Inr: "lift r h = (h', Inr b) \<longleftrightarrow> h' = h \<and> r = Inr b"
  by (auto simp: lift_def)

lemma call_Inr: "call e oracle h = (h', Inr b) \<longleftrightarrow> h' = h @ [e] \<and> oracle h = Inr b"
  by (auto simp: call_def)

lemma display_run: "display v h = (h @ (if v = NoneVal then [] else [Display v]), Inr ())"
  by (simp add: display_def return_def call_def)

lemma print_run: "print v h = (h @ [Print v], Inr ())"
  by (simp add: print_def call_def)

lemma traverse_Inr:
  "traverse f xs = Inr ys \<Longrightarrow> length ys = length xs \<and> (\<forall>i<length xs. f (xs ! i) = Inr (ys ! i))"
proof (induction xs arbitrary: ys)
  case Nil
  then show ?case by simp
next
  case (Cons x xs)
  from Cons.prems obtain y zs where
    fx: "f x = Inr y" and rest: "traverse f xs = Inr zs" and ys: "ys = y # zs"
    by (auto split: sum.splits)
  from Cons.IH [OF rest] have "length zs = length xs"
    and nth: "\<forall>i<length xs. f (xs ! i) = Inr (zs ! i)" by simp_all
  then show ?case using fx ys
    by (auto simp: nth_Cons split: nat.splits)
qed

lemma getitem_nat:
  "getitem xs (int i) = (if i < length xs then Inr (xs ! i) else Inl IndexError)"
  by (simp add: getitem_def len_def)

lemma point_at_Inr:
  "point_at vectors texts i = Inr p \<Longrightarrow>
     i < length vectors \<and> i < length texts \<and>
     p = \<lparr>point_id = int i, point_vector = vectors ! i,
          payload = [''content'' \<mapsto> page_content (texts ! i)]\<rparr>"
  by (auto simp: point_at_def getitem_nat split: if_splits sum.splits)

lemma make_points_Inr:
  assumes "make_points vectors texts = Inr points"
  shows "length points = length vectors"
    and "length vectors \<le> length texts"
    and "i < length vectors \<Longrightarrow>
           points ! i = \<lparr>point_id = int i, point_vector = vectors ! i,
                         payload = [''content'' \<mapsto> page_content (texts ! i)]\<rparr>"
proof -
  from assms have t: "traverse (point_at vectors texts) [0..<length vectors] = Inr points"
    by (simp add: make_points_def)
  from traverse_Inr [OF t] have len: "length points = length vectors"
    and nth: "\<forall>i<length vectors. point_at vectors texts i = Inr (points ! i)"
    by simp_all
  show "length points = length vectors" by (rule len)
  show "length vectors \<le> length texts"
  proof (cases "length vectors")
    case 0
    then show ?thesis by simp
  next
    case (Suc n)
    with nth have "point_at vectors texts n = Inr (points ! n)" by simp
    from point_at_Inr [OF this] Suc show ?thesis by simp
  qed
  show "points ! i = \<lparr>point_id = int i, point_vector = vectors ! i,
                         payload = [''content'' \<mapsto> page_content (texts ! i)]\<rparr>"
    if "i < length vectors"
  proof -
    from nth that have "point_at vectors texts i = Inr (points ! i)" by simp
    from point_at_Inr [OF this] show ?thesis by simp
  qed
qed

lemma traverse_total:
  "(\<And>x. x \<in> set xs \<Longrightarrow> \<exists>y. f x = Inr y) \<Longrightarrow> \<exists>ys. traverse f xs = Inr ys"
proof (induction xs)
  case Nil
  then show ?case by simp
next
  case (Cons x xs)
  from Cons.prems obtain y where "f x = Inr y" by fastforce
  moreover from Cons obtain ys where "traverse f xs = Inr ys" by fastforce
  ultimately show ?case by simp
qed

lemma make_points_total:
  assumes "length vectors \<le> length texts"
  shows "\<exists>points. make_points vectors texts = Inr points"
  unfolding make_points_def
proof (rule traverse_total)
  fix i assume "i \<in> set [0..<length vectors]"
  with assms have "i < length vectors" "i < length texts" by simp_all
  then show "\<exists>p. point_at vectors texts i = Inr p"
    by (simp add: point_at_def getitem_nat)
qed

subsection \<open>What a cell that succeeded has done\<close>

lemma cell_chunk_Inr:
  assumes "cell_chunk env text h = (h', Inr (texts, context_text))"
  shows "create_documents env h text_splitter [text] = Inr texts"
    and "context_text = map page_content texts"
  using assms
  by (auto simp: cell_chunk_def chunking_def bind_Inr call_Inr return_Inr lift_Inr Let_def)

lemma cell_embed_Inr:
  assumes "cell_embed env context_text h = (h', Inr response)"
  shows "embeddings_create env h context_text EMBEDDING_MODEL = Inr response"
  using assms
  by (auto simp: cell_embed_def create_embeddings_def bind_Inr call_Inr return_Inr print_run)

lemma cell_vectors_Inr:
  assumes "cell_vectors response h = (h', Inr vectors)"
  shows "vectors = map embedding (data response)"
  using assms
  by (auto simp: cell_vectors_def bind_Inr return_Inr lift_Inr Let_def)

lemma cell_index_Inr:
  assumes "cell_index env vectors texts h = (h', Inr points)"
  shows "make_points vectors texts = Inr points"
    and "h' = h @ [QdrantClient '':memory:'', RecreateCollection ''demo'' demo_params,
                   UploadPoints ''demo'' points]"
  using assms
  by (auto simp: cell_index_def bind_Inr call_Inr return_Inr lift_Inr)

lemma cell_query_Inr:
  assumes "cell_query env h = (h', Inr query_vector)"
  shows "h' = h @ [EmbeddingsCreate [the_query] EMBEDDING_MODEL]"
  using assms
  by (auto simp: cell_query_def create_embeddings_def bind_Inr call_Inr return_Inr lift_Inr)

lemma cell_search_Inr:
  assumes "cell_search env query_vector h = (h', Inr (search_results, neighbors, distances))"
  shows "search env h ''demo'' query_vector 2 = Inr search_results"
    and "neighbors = map hit_id search_results"
    and "distances = map score search_results"
    and "h' = h @ [Search ''demo'' query_vector 2, Print (ListVal (map IntVal neighbors)),
                   Print (ListVal (map FloatVal distances))]"
  using assms
  by (auto simp: cell_search_def bind_Inr call_Inr return_Inr print_run Let_def)

lemma ask_run:
  "ask env query model h =
     (h @ [ChatCompletionsCreate (ask_request query model)],
      case chat_completions_create env h (ask_request query model) of
        Inl e \<Rightarrow> Inl e
      | Inr response \<Rightarrow>
          (case getitem (choices response) 0 of
             Inl e \<Rightarrow> Inl e
           | Inr c \<Rightarrow> Inr (content (message c))))"
  by (simp add: ask_def bind_def call_def lift_def return_def split: sum.splits)

lemma ask_Inr:
  "ask env query model h = (h', Inr a) \<longleftrightarrow>
     h' = h @ [ChatCompletionsCreate (ask_request query model)] \<and>
     (\<exists>response c.
        chat_completions_create env h (ask_request query model) = Inr response \<and>
        getitem (choices response) 0 = Inr c \<and> a = content (message c))"
  by (auto simp: ask_def bind_Inr call_Inr lift_Inr return_Inr)

lemma display_Inr:
  "display v h = (h', Inr u) \<longleftrightarrow> h' = h @ (if v = NoneVal then [] else [Display v])"
  by (auto simp: display_run)

lemma str_or_none_trace:
  "(if str_or_none a = NoneVal then [] else [Display (str_or_none a)]) =
     (case a of None \<Rightarrow> [] | Some t \<Rightarrow> [Display (StrVal t)])"
  by (simp add: str_or_none_def split: option.splits)

lemma cell_answer_Inr:
  assumes "cell_answer env context_text neighbors h = (h', Inr (selected_context, answer))"
  obtains nearest chunk response c where
    "getitem neighbors 0 = Inr nearest"
    "getitem context_text nearest = Inr chunk"
    "selected_context = [chunk]"
    "chat_completions_create env h
       (ask_request (introduction @ chunk @ question the_query) MODEL) = Inr response"
    "getitem (choices response) 0 = Inr c"
    "answer = content (message c)"
    "h' = h @ ChatCompletionsCreate (ask_request (introduction @ chunk @ question the_query) MODEL)
            # (case answer of None \<Rightarrow> [] | Some a \<Rightarrow> [Display (StrVal a)])"
proof -
  from assms obtain nearest chunk h1 where
    n: "getitem neighbors 0 = Inr nearest" and
    c: "getitem context_text nearest = Inr chunk" and
    s: "selected_context = [chunk]" and
    a: "ask env (introduction @ chunk @ question the_query) MODEL h = (h1, Inr answer)" and
    d: "h' = h1 @ (case answer of None \<Rightarrow> [] | Some t \<Rightarrow> [Display (StrVal t)])"
    by (auto simp: cell_answer_def ask_with_context_def bind_Inr return_Inr lift_Inr
        display_Inr Let_def str_or_none_trace)
  from a obtain response c where
    "h1 = h @ [ChatCompletionsCreate
                 (ask_request (introduction @ chunk @ question the_query) MODEL)]"
    "chat_completions_create env h
       (ask_request (introduction @ chunk @ question the_query) MODEL) = Inr response"
    "getitem (choices response) 0 = Inr c" "answer = content (message c)"
    by (auto simp: ask_Inr)
  with n c s d that show thesis by simp
qed

lemma num_tokens_run:
  "num_tokens env text model h =
     (case encoding_for_model env h model of
        Inl e \<Rightarrow> (h @ [EncodingForModel model], Inl e)
      | Inr encoding \<Rightarrow>
          (h @ [EncodingForModel model, Encode encoding text],
           case encode env (h @ [EncodingForModel model]) encoding text of
             Inl e \<Rightarrow> Inl e
           | Inr tokens \<Rightarrow> Inr (length tokens)))"
  by (simp add: num_tokens_def bind_def call_def return_def split: sum.splits)

lemma search_101_Inr:
  assumes "search_101 env h = (h', Inr g)"
  obtains h1 h2 h3 h4 h5 h6 h7 h8 h9 h10 where
    "cell_setup env h = (h1, Inr ())"
    "cell_text env h1 = (h2, Inr (g_text g))"
    "cell_ask env h2 = (h3, Inr ())"
    "cell_num_tokens env (g_text g) h3 = (h4, Inr ())"
    "cell_chunk env (g_text g) h4 = (h5, Inr (g_texts g, g_context_text g))"
    "cell_embed env (g_context_text g) h5 = (h6, Inr (g_response g))"
    "cell_vectors (g_response g) h6 = (h7, Inr (g_vectors g))"
    "cell_index env (g_vectors g) (g_texts g) h7 = (h8, Inr (g_points g))"
    "cell_query env h8 = (h9, Inr (g_query_vector g))"
    "cell_search env (g_query_vector g) h9 =
       (h10, Inr (g_search_results g, g_neighbors g, g_distances g))"
    "cell_answer env (g_context_text g) (g_neighbors g) h10 =
       (h', Inr (g_selected_context g, g_answer g))"
  using assms unfolding search_101_def
  by (auto simp: bind_Inr return_Inr)

lemma cell_text_Inr:
  assumes "cell_text env h = (h', Inr text)"
  shows "read_text env h essay_path = Inr text" and "h' = h @ [ReadText essay_path]"
  using assms by (auto simp: cell_text_def call_Inr)

lemma cell_chunk_trace:
  assumes "cell_chunk env text h = (h', Inr (texts, context_text))"
  shows "h' = h @ [CreateDocuments text_splitter [text],
                   Display (TupleVal [IntVal (len context_text), StrVal (context_text ! 0)])]"
  using assms
  by (auto simp: cell_chunk_def chunking_def bind_Inr call_Inr return_Inr lift_Inr Let_def
      display_Inr getitem_def len_def split: if_splits)

lemma cell_embed_trace:
  assumes "cell_embed env context_text h = (h', Inr response)"
  shows "h' = h @ [EmbeddingsCreate context_text EMBEDDING_MODEL,
                   Print (StrVal (''Number of documents: '' @ str_nat (length (data response))))]"
  using assms
  by (auto simp: cell_embed_def create_embeddings_def bind_Inr call_Inr return_Inr print_run)

lemma cell_vectors_trace:
  assumes "cell_vectors response h = (h', Inr vectors)"
  shows "h' = h @ [Display (TupleVal [IntVal (len vectors), IntVal (len (vectors ! 0))])]"
  using assms
  by (auto simp: cell_vectors_def bind_Inr return_Inr lift_Inr Let_def display_Inr
      getitem_def len_def split: if_splits)

lemma cell_query_answer:
  assumes "cell_query env h = (h', Inr query_vector)"
  obtains response d where
    "embeddings_create env h [the_query] EMBEDDING_MODEL = Inr response"
    "getitem (data response) 0 = Inr d"
    "query_vector = embedding d"
  using assms
  by (auto simp: cell_query_def create_embeddings_def bind_Inr call_Inr return_Inr lift_Inr)

subsection \<open>The effects of each part\<close>

lemma emits_return: "emits P (return a)"
  by (simp add: emits_def return_def)

lemma emits_lift: "emits P (lift r)"
  by (simp add: emits_def lift_def)

lemma emits_call: "P e \<Longrightarrow> emits P (call e oracle)"
  by (simp add: emits_def call_def)

lemma emits_bind:
  assumes m: "emits P m" and f: "\<And>a. emits P (f a)"
  shows "emits P (bind m f)"
  unfolding emits_def
proof
  fix h
  from m obtain es where es: "fst (m h) = h @ es" "list_all P es"
    unfolding emits_def by blast
  show "\<exists>es. fst (bind m f h) = h @ es \<and> list_all P es"
  proof (cases "m h")
    case (Pair h1 r)
    show ?thesis
    proof (cases r)
      case (Inl e)
      with Pair es show ?thesis by (auto simp: bind_def)
    next
      case (Inr a)
      from f [of a] obtain es' where "fst (f a h1) = h1 @ es'" "list_all P es'"
        unfolding emits_def by blast
      with Pair Inr es show ?thesis by (auto simp: bind_def)
    qed
  qed
qed

lemma emits_mono: "emits P m \<Longrightarrow> (\<And>e. P e \<Longrightarrow> Q e) \<Longrightarrow> emits Q m"
  unfolding emits_def by (metis (mono_tags, lifting) list_all_iff)

lemma emits_emitted:
  "emits P m \<Longrightarrow> fst (m h) = h @ emitted m h \<and> list_all P (emitted m h)"
  unfolding emits_def emitted_def
  by (metis append_eq_conv_conj)

lemma quiet_print: "emits quiet (print v)"
  by (simp add: print_def emits_call quiet_def)

lemma quiet_display: "emits quiet (display v)"
  by (simp add: display_def emits_call emits_return quiet_def)

lemma quiet_ask: "emits quiet (ask env query MODEL)"
  by (simp add: ask_def ask_request_def emits_bind emits_call emits_lift emits_return quiet_def)

lemma quiet_chat:
  "chat_model request = MODEL \<Longrightarrow> chat_temperature request = 0 \<Longrightarrow> emits quiet (chat env request)"
  by (simp add: chat_def emits_call quiet_def)

lemma quiet_reply: "emits quiet (reply response)"
  by (simp add: reply_def emits_bind emits_lift emits_return)

lemma quiet_create_embeddings: "emits quiet (create_embeddings env texts EMBEDDING_MODEL)"
  by (simp add: create_embeddings_def emits_call quiet_def)

lemma quiet_cells:
  "emits quiet (cell_ask env)"
  "emits quiet (cell_chunk env text)"
  "emits quiet (cell_embed env context_text)"
  "emits quiet (cell_vectors response)"
  "emits quiet (cell_index env vectors texts)"
  "emits quiet (cell_query env)"
  "emits quiet (cell_search env query_vector)"
  "emits quiet (cell_answer env context_text neighbors)"
  by (simp_all add: cell_ask_def cell_chunk_def chunking_def cell_embed_def cell_vectors_def
      cell_index_def cell_query_def cell_search_def cell_answer_def ask_with_context_def
      Let_def split_def emits_bind emits_lift emits_return quiet_print quiet_display quiet_ask
      quiet_create_embeddings emits_call quiet_def)


lemma emits_quiet_permitted: "emits quiet m \<Longrightarrow> emits permitted m"
  by (erule emits_mono) (simp add: quiet_def)

lemma emits_setup: "emits permitted (cell_setup env)"
  by (simp add: cell_setup_def emits_bind emits_call)

lemma emits_text: "emits permitted (cell_text env)"
  by (simp add: cell_text_def emits_call)

lemma emits_num_tokens: "emits permitted (cell_num_tokens env text)"
  by (simp add: cell_num_tokens_def num_tokens_def emits_bind emits_call emits_return
      emits_quiet_permitted [OF quiet_display])

lemmas emits_cells = quiet_cells [THEN emits_quiet_permitted]

lemma emits_search_101: "emits permitted (search_101 env)"
  by (simp add: search_101_def emits_bind emits_return emits_setup emits_text emits_num_tokens
      emits_cells split_def)

lemma emits_course_introduction: "emits permitted (course_introduction env)"
  by (simp add: course_introduction_def emits_bind emits_setup
      emits_quiet_permitted [OF quiet_chat] emits_quiet_permitted [OF quiet_reply]
      emits_quiet_permitted [OF quiet_print] emits_quiet_permitted [OF quiet_display]
      knock_request_def verbose_request_def)

lemma emits_chat_examples: "emits permitted (chat_examples env)"
  by (simp add: chat_examples_def emits_bind emits_setup
      emits_quiet_permitted [OF quiet_chat] emits_quiet_permitted [OF quiet_reply]
      emits_quiet_permitted [OF quiet_print] concise_request_def jargon_request_def)

subsection \<open>File access, in order\<close>

lemma emitted_bind:
  assumes m: "emits P m" and f: "\<And>a. emits Q (f a)"
  shows "emitted (bind m f) h =
           emitted m h @
           (case snd (m h) of Inl e \<Rightarrow> [] | Inr a \<Rightarrow> emitted (f a) (fst (m h)))"
proof -
  from emits_emitted [OF m, of h] obtain es where es: "fst (m h) = h @ es" "emitted m h = es"
    by simp
  show ?thesis
  proof (cases "snd (m h)")
    case (Inl e)
    then have "fst (bind m f h) = fst (m h)"
      by (cases "m h") (simp add: bind_def)
    with es Inl show ?thesis by (simp add: emitted_def)
  next
    case (Inr a)
    then have b: "bind m f h = f a (fst (m h))"
      by (cases "m h") (simp add: bind_def)
    from emits_emitted [OF f, of a "fst (m h)"]
    have "fst (f a (fst (m h))) = fst (m h) @ emitted (f a) (fst (m h))" by simp
    with b es have "fst (bind m f h) = h @ es @ emitted (f a) (fst (m h))" by simp
    then have "emitted (bind m f) h = es @ emitted (f a) (fst (m h))"
      by (simp add: emitted_def)
    with es Inr show ?thesis by simp
  qed
qed

lemma quiet_files: "emits quiet m \<Longrightarrow> filter touches_files (emitted m h) = []"
  using emits_emitted [of quiet m h] by (simp add: quiet_def list_all_iff filter_empty_conv)

lemma files_bind:
  assumes "emits permitted m" and "\<And>a. emits permitted (f a)"
  shows "filter touches_files (emitted (bind m f) h) =
           filter touches_files (emitted m h) @
           (case snd (m h) of
              Inl e \<Rightarrow> []
            | Inr a \<Rightarrow> filter touches_files (emitted (f a) (fst (m h))))"
  by (simp add: emitted_bind [OF assms] split: sum.splits)

lemma files_quiet_bind:
  assumes "emits quiet m" and "\<And>a. emits quiet (f a)"
  shows "filter touches_files (emitted (bind m f) h) = []"
  by (rule quiet_files) (rule emits_bind [OF assms])

lemma files_setup: "filter touches_files (emitted (cell_setup env) h) = [LoadDotenv]"
  by (simp add: cell_setup_def emitted_def bind_def call_def split: sum.splits)

lemma files_text: "filter touches_files (emitted (cell_text env) h) = [ReadText essay_path]"
  by (simp add: cell_text_def emitted_def call_def)

lemma files_num_tokens:
  "filter touches_files (emitted (cell_num_tokens env text) h) = [EncodingForModel MODEL]"
  by (simp add: cell_num_tokens_def emitted_def num_tokens_run bind_def display_run
      split: sum.splits)

lemma files_search_101:
  "filter touches_files (emitted (search_101 env) h) =
     LoadDotenv #
     (case snd (cell_setup env h) of
        Inl e \<Rightarrow> []
      | Inr u \<Rightarrow>
          ReadText essay_path #
          (case snd (cell_text env (fst (cell_setup env h))) of
             Inl e \<Rightarrow> []
           | Inr text \<Rightarrow>
               (case snd (cell_ask env (fst (cell_text env (fst (cell_setup env h))))) of
                  Inl e \<Rightarrow> []
                | Inr u \<Rightarrow> [EncodingForModel MODEL])))"
  unfolding search_101_def
  apply (subst files_bind [OF emits_setup])
   apply (simp add: emits_bind emits_return emits_text emits_num_tokens emits_cells split_def)
  apply (subst files_bind [OF emits_text])
   apply (simp add: emits_bind emits_return emits_text emits_num_tokens emits_cells split_def)
  apply (subst files_bind [OF emits_cells(1)])
   apply (simp add: emits_bind emits_return emits_text emits_num_tokens emits_cells split_def)
  apply (subst files_bind [OF emits_num_tokens])
   apply (simp add: emits_bind emits_return emits_text emits_num_tokens emits_cells split_def)
  apply (simp add: files_setup files_text files_num_tokens quiet_files quiet_cells
      files_quiet_bind emits_bind emits_return split_def split: sum.splits)
  done

lemma writes_touches: "writes_files e \<Longrightarrow> touches_files e"
  by (cases e) simp_all

lemma filter_writes: "filter writes_files (filter touches_files es) = filter writes_files es"
  by (induction es) (auto dest: writes_touches)

lemma writes_of_files:
  "filter touches_files es = fs \<Longrightarrow> filter writes_files es = filter writes_files fs"
  using filter_writes [of es] by simp

lemma files_completed_search_101:
  assumes "search_101 env h = (h', Inr g)"
  shows "filter touches_files (emitted (search_101 env) h) =
           [LoadDotenv, ReadText essay_path, EncodingForModel MODEL]"
proof -
  from assms obtain h1 h2 h3 where
    "cell_setup env h = (h1, Inr ())"
    "cell_text env h1 = (h2, Inr (g_text g))"
    "cell_ask env h2 = (h3, Inr ())"
    by (rule search_101_Inr)
  then show ?thesis by (simp add: files_search_101)
qed

lemma files_course_introduction:
  "filter touches_files (emitted (course_introduction env) h) = [LoadDotenv]"
  unfolding course_introduction_def
  apply (subst files_bind [OF emits_setup])
   apply (simp add: emits_bind emits_quiet_permitted quiet_chat quiet_reply quiet_print
      quiet_display knock_request_def verbose_request_def)
  apply (simp add: files_setup files_quiet_bind emits_bind quiet_chat quiet_reply quiet_print
      quiet_display knock_request_def verbose_request_def split: sum.splits)
  done

lemma files_chat_examples:
  "filter touches_files (emitted (chat_examples env) h) = [LoadDotenv]"
  unfolding chat_examples_def
  apply (subst files_bind [OF emits_setup])
   apply (simp add: emits_bind emits_quiet_permitted quiet_chat quiet_reply quiet_print
      concise_request_def jargon_request_def)
  apply (simp add: files_setup files_quiet_bind emits_bind quiet_chat quiet_reply quiet_print
      concise_request_def jargon_request_def split: sum.splits)
  done

subsection \<open>The run in the small environment\<close>

lemmas prog_defs = bind_def call_def lift_def return_def print_def display_def
lemmas cell_defs = search_101_def cell_setup_def cell_text_def cell_ask_def cell_num_tokens_def
  cell_chunk_def chunking_def cell_embed_def cell_vectors_def cell_index_def cell_query_def
  cell_search_def cell_answer_def ask_def num_tokens_def create_embeddings_def
  ask_with_context_def make_points_def point_at_def getitem_def str_or_none_def len_def
  the_query_def ask_request_def
lemmas demo_defs = demo_env_def demo_search_def demo_chat_def demo_sim_def

lemma demo_result: "snd (search_101 demo_env []) = Inr demo_globals"
  by (simp add: prog_defs cell_defs demo_defs demo_globals_def Let_def upt_rec)

lemma demo_run: "search_101 demo_env [] = (demo_trace, Inr demo_globals)"
  unfolding demo_trace_def using demo_result by (simp add: prod_eq_iff)

section \<open>The claims\<close>

text \<open>
  C1. In a run of the search notebook that completes, the context handed to
  \<open>ask_with_context\<close> comes from retrieval, step by step. The essay was read; the
  splitter was called on it and \<open>context_text\<close> is its chunks' page contents; the
  embeddings endpoint was called on \<open>context_text\<close> and \<open>vectors\<close> is its answer; the
  points were uploaded to \<open>demo\<close>; the embeddings endpoint was then called on the query
  and the query vector is its first embedding; the store was then searched for that vector.
  The calls from the splitter's to the last one are exactly the ones listed, in this order,
  each answered from the calls before it. Provided the store returns only points that were
  uploaded to it, the first hit has the id \<open>i\<close> of an uploaded point, which carries the
  embedding and the text of chunk \<open>i\<close>; the selected context is exactly
  \<open>[context_text[i]]\<close>, and the answer is the content of the first choice of the chat
  completion requested, after the search, for the prompt built from that chunk.
\<close>

theorem context_comes_from_retrieval:
  assumes run: "search_101 env h = (h', Inr g)"
    and stored: "stored_hits (g_points g) (g_search_results g)"
  shows "\<exists>ht es hc he hu hq hs hg query_response query_item hit hits i response c.
           read_text env ht essay_path = Inr (g_text g) \<and>
           hc = ht @ ReadText essay_path # es \<and>
           create_documents env hc text_splitter [g_text g] = Inr (g_texts g) \<and>
           g_context_text g = map page_content (g_texts g) \<and>
           he = hc @ [CreateDocuments text_splitter [g_text g],
                      Display (TupleVal [IntVal (len (g_context_text g)),
                                         StrVal (g_context_text g ! 0)])] \<and>
           embeddings_create env he (g_context_text g) EMBEDDING_MODEL = Inr (g_response g) \<and>
           g_vectors g = map embedding (data (g_response g)) \<and>
           hu = he @ [EmbeddingsCreate (g_context_text g) EMBEDDING_MODEL,
                      Print (StrVal (''Number of documents: '' @
                                     str_nat (length (data (g_response g))))),
                      Display (TupleVal [IntVal (len (g_vectors g)),
                                         IntVal (len (g_vectors g ! 0))])] \<and>
           hq = hu @ [QdrantClient '':memory:'', RecreateCollection ''demo'' demo_params,
                      UploadPoints ''demo'' (g_points g)] \<and>
           embeddings_create env hq [the_query] EMBEDDING_MODEL = Inr query_response \<and>
           getitem (data query_response) 0 = Inr query_item \<and>
           g_query_vector g = embedding query_item \<and>
           hs = hq @ [EmbeddingsCreate [the_query] EMBEDDING_MODEL] \<and>
           search env hs ''demo'' (g_query_vector g) 2 = Inr (g_search_results g) \<and>
           hg = hs @ [Search ''demo'' (g_query_vector g) 2,
                      Print (ListVal (map IntVal (g_neighbors g))),
                      Print (ListVal (map FloatVal (g_distances g)))] \<and>
           g_search_results g = hit # hits \<and>
           hit_id hit = int i \<and> i < length (g_points g) \<and> i < length (g_context_text g) \<and>
           point_id (g_points g ! i) = hit_id hit \<and>
           point_vector (g_points g ! i) = embedding (data (g_response g) ! i) \<and>
           payload (g_points g ! i) ''content'' = Some (g_context_text g ! i) \<and>
           g_selected_context g = [g_context_text g ! i] \<and>
           chat_completions_create env hg
             (ask_request (introduction @ g_context_text g ! i @ question the_query) MODEL) =
             Inr response \<and>
           getitem (choices response) 0 = Inr c \<and>
           g_answer g = content (message c) \<and>
           h' = hg @ ChatCompletionsCreate
                    (ask_request (introduction @ g_context_text g ! i @ question the_query) MODEL)
                  # (case g_answer g of None \<Rightarrow> [] | Some a \<Rightarrow> [Display (StrVal a)])"
proof -
  from run obtain h1 h2 h3 h4 h5 h6 h7 h8 h9 h10 where
    essay: "cell_text env h1 = (h2, Inr (g_text g))" and
    ask: "cell_ask env h2 = (h3, Inr ())" and
    toks: "cell_num_tokens env (g_text g) h3 = (h4, Inr ())" and
    chunk: "cell_chunk env (g_text g) h4 = (h5, Inr (g_texts g, g_context_text g))" and
    embed: "cell_embed env (g_context_text g) h5 = (h6, Inr (g_response g))" and
    vecs: "cell_vectors (g_response g) h6 = (h7, Inr (g_vectors g))" and
    index: "cell_index env (g_vectors g) (g_texts g) h7 = (h8, Inr (g_points g))" and
    query: "cell_query env h8 = (h9, Inr (g_query_vector g))" and
    srch: "cell_search env (g_query_vector g) h9 =
       (h10, Inr (g_search_results g, g_neighbors g, g_distances g))" and
    answer: "cell_answer env (g_context_text g) (g_neighbors g) h10 =
       (h', Inr (g_selected_context g, g_answer g))"
    by (rule search_101_Inr)
  let ?n = "length (g_vectors g)"
  have read: "read_text env h1 essay_path = Inr (g_text g)" and h2: "h2 = h1 @ [ReadText essay_path]"
    using cell_text_Inr [OF essay] by simp_all
  obtain es3 where h3: "h3 = h2 @ es3"
    using quiet_cells(1) [of env] ask unfolding emits_def by (metis fst_conv)
  obtain es4 where h4: "h4 = h3 @ es4"
    using emits_num_tokens [of env "g_text g"] toks unfolding emits_def by (metis fst_conv)
  have hc: "h4 = h1 @ ReadText essay_path # (es3 @ es4)"
    using h2 h3 h4 by simp
  have docs: "create_documents env h4 text_splitter [g_text g] = Inr (g_texts g)"
    and ctx: "g_context_text g = map page_content (g_texts g)"
    using cell_chunk_Inr [OF chunk] by simp_all
  note h5 = cell_chunk_trace [OF chunk]
  have emb: "embeddings_create env h5 (g_context_text g) EMBEDDING_MODEL = Inr (g_response g)"
    using cell_embed_Inr [OF embed] .
  have vs: "g_vectors g = map embedding (data (g_response g))"
    using cell_vectors_Inr [OF vecs] .
  have h7: "h7 = h5 @ [EmbeddingsCreate (g_context_text g) EMBEDDING_MODEL,
                      Print (StrVal (''Number of documents: '' @
                                     str_nat (length (data (g_response g))))),
                      Display (TupleVal [IntVal (len (g_vectors g)),
                                         IntVal (len (g_vectors g ! 0))])]"
    using cell_embed_trace [OF embed] cell_vectors_trace [OF vecs] by simp
  have mk: "make_points (g_vectors g) (g_texts g) = Inr (g_points g)"
    and h8: "h8 = h7 @ [QdrantClient '':memory:'', RecreateCollection ''demo'' demo_params,
                       UploadPoints ''demo'' (g_points g)]"
    using cell_index_Inr [OF index] by simp_all
  have len: "length (g_points g) = ?n" and le: "?n \<le> length (g_texts g)"
    using make_points_Inr(1,2) [OF mk] by simp_all
  have pt: "g_points g ! i = \<lparr>point_id = int i, point_vector = g_vectors g ! i,
                         payload = [''content'' \<mapsto> page_content (g_texts g ! i)]\<rparr>"
    if "i < ?n" for i
    using make_points_Inr(3) [OF mk that] .
  have ids: "set (map point_id (g_points g)) = int ` {..<?n}"
  proof -
    have "map point_id (g_points g) = map int [0..<?n]"
      by (rule nth_equalityI) (simp_all add: len pt)
    then show ?thesis by (simp add: lessThan_atLeast0)
  qed
  from query obtain query_response query_item where
    qe: "embeddings_create env h8 [the_query] EMBEDDING_MODEL = Inr query_response" and
    qi: "getitem (data query_response) 0 = Inr query_item" and
    qv: "g_query_vector g = embedding query_item"
    by (rule cell_query_answer)
  note h9 = cell_query_Inr [OF query]
  have sr: "search env h9 ''demo'' (g_query_vector g) 2 = Inr (g_search_results g)"
    and nb: "g_neighbors g = map hit_id (g_search_results g)"
    and h10: "h10 = h9 @ [Search ''demo'' (g_query_vector g) 2,
                      Print (ListVal (map IntVal (g_neighbors g))),
                      Print (ListVal (map FloatVal (g_distances g)))]"
    using cell_search_Inr(1,2,4) [OF srch] by simp_all
  from answer obtain nearest chunk' response c where
    first: "getitem (g_neighbors g) 0 = Inr nearest" and
    got: "getitem (g_context_text g) nearest = Inr chunk'" and
    sel: "g_selected_context g = [chunk']" and
    chat: "chat_completions_create env h10
       (ask_request (introduction @ chunk' @ question the_query) MODEL) = Inr response" and
    choice: "getitem (choices response) 0 = Inr c" and
    ans: "g_answer g = content (message c)" and
    h': "h' = h10 @ ChatCompletionsCreate
                (ask_request (introduction @ chunk' @ question the_query) MODEL)
            # (case g_answer g of None \<Rightarrow> [] | Some a \<Rightarrow> [Display (StrVal a)])"
    by (rule cell_answer_Inr)
  from first nb obtain hit hits where
    hits: "g_search_results g = hit # hits" and nearest: "nearest = hit_id hit"
    by (cases "g_search_results g") (auto simp: getitem_def len_def split: if_splits)
  from stored hits have "hit_id hit \<in> set (map point_id (g_points g))"
    by (simp add: stored_hits_def)
  with ids obtain i where i: "i < ?n" and id: "hit_id hit = int i"
    by auto
  from i le have i_texts: "i < length (g_texts g)" by simp
  with got nearest id ctx have chunk': "chunk' = g_context_text g ! i"
    by (simp add: getitem_nat)
  have point: "point_id (g_points g ! i) = hit_id hit"
    "point_vector (g_points g ! i) = embedding (data (g_response g) ! i)"
    "payload (g_points g ! i) ''content'' = Some (g_context_text g ! i)"
    using pt [OF i] i i_texts id vs ctx by simp_all
  have i_len: "i < length (g_points g)" "i < length (g_context_text g)"
    using i len i_texts ctx by simp_all
  show ?thesis
    apply (rule exI [of _ h1], rule exI [of _ "es3 @ es4"], rule exI [of _ h4])
    apply (rule exI [of _ h5], rule exI [of _ h7], rule exI [of _ h8], rule exI [of _ h9])
    apply (rule exI [of _ h10], rule exI [of _ query_response], rule exI [of _ query_item])
    apply (rule exI [of _ hit], rule exI [of _ hits], rule exI [of _ i])
    apply (rule exI [of _ response], rule exI [of _ c])
    using read hc docs ctx h5 emb vs h7 h8 qe qi qv h9 sr h10 hits id i_len point
      sel [unfolded chunk'] chat [unfolded chunk'] choice ans h' [unfolded chunk']
    apply (intro conjI)
    apply assumption+
    done
qed

text \<open>
  The run in the small environment: the store returns point 1 first, and the second chunk
  is the context.
\<close>

theorem context_comes_from_retrieval_witness:
  "stored_hits (g_points demo_globals) (g_search_results demo_globals) \<and>
   g_selected_context demo_globals = [''Then Y Combinator.''] \<and>
   (\<exists>hit hits i.
      g_search_results demo_globals = hit # hits \<and> hit_id hit = int i \<and>
      payload (g_points demo_globals ! i) ''content'' = Some (g_context_text demo_globals ! i) \<and>
      g_selected_context demo_globals = [g_context_text demo_globals ! i])"
proof -
  have stored: "stored_hits (g_points demo_globals) (g_search_results demo_globals)"
    by (simp add: stored_hits_def demo_globals_def)
  from context_comes_from_retrieval [OF demo_run stored]
  have "\<exists>hit hits i.
      g_search_results demo_globals = hit # hits \<and> hit_id hit = int i \<and>
      payload (g_points demo_globals ! i) ''content'' = Some (g_context_text demo_globals ! i) \<and>
      g_selected_context demo_globals = [g_context_text demo_globals ! i]"
    by blast
  with stored show ?thesis by (simp add: demo_globals_def)
qed

text \<open>
  C2. \<open>create_embeddings(texts, model)\<close> makes exactly one call, to the embeddings
  endpoint with \<open>input=texts\<close> and \<open>model=model\<close>, and its outcome is the endpoint's
  outcome, whatever was called before.
\<close>

theorem create_embeddings_single_call:
  "create_embeddings env texts model h =
     (h @ [EmbeddingsCreate texts model], embeddings_create env h texts model)"
  by (simp add: create_embeddings_def call_def)

text \<open>
  The search cell only forwards to the vector store: the client was created with
  \<open>":memory:"\<close>, the collection \<open>demo\<close> with size 1536 and cosine distance, the points
  were uploaded, the search results are the store's answer for the query vector with limit
  2, and \<open>neighbors\<close> and \<open>distances\<close> are its ids and scores in its order. How many hits
  the store returns and how it ranks them is not decided by the notebook.
\<close>

lemma search_is_forwarded:
  assumes run: "search_101 env h = (h', Inr g)"
  shows "\<exists>hs. QdrantClient '':memory:'' \<in> set hs \<and>
           RecreateCollection ''demo'' \<lparr>vp_size = 1536, vp_distance = Cosine\<rparr> \<in> set hs \<and>
           UploadPoints ''demo'' (g_points g) \<in> set hs \<and>
           search env hs ''demo'' (g_query_vector g) 2 = Inr (g_search_results g) \<and>
           g_neighbors g = map hit_id (g_search_results g) \<and>
           g_distances g = map score (g_search_results g)"
proof -
  from run obtain h7 h8 h9 h10 where
    index: "cell_index env (g_vectors g) (g_texts g) h7 = (h8, Inr (g_points g))" and
    query: "cell_query env h8 = (h9, Inr (g_query_vector g))" and
    srch: "cell_search env (g_query_vector g) h9 =
       (h10, Inr (g_search_results g, g_neighbors g, g_distances g))"
    by (rule search_101_Inr)
  have "QdrantClient '':memory:'' \<in> set h9"
    "RecreateCollection ''demo'' \<lparr>vp_size = 1536, vp_distance = Cosine\<rparr> \<in> set h9"
    "UploadPoints ''demo'' (g_points g) \<in> set h9"
    using cell_index_Inr(2) [OF index] cell_query_Inr [OF query]
    by (simp_all add: demo_params_def)
  moreover have "search env h9 ''demo'' (g_query_vector g) 2 = Inr (g_search_results g)"
    "g_neighbors g = map hit_id (g_search_results g)"
    "g_distances g = map score (g_search_results g)"
    using cell_search_Inr(1,2,3) [OF srch] by simp_all
  ultimately show ?thesis by blast
qed

text \<open>
  C4. No retry and no handler. \<open>ask\<close>, \<open>create_embeddings\<close> and
  \<open>ask_with_context\<close> make exactly one library call, and when it raises they raise the
  same error. \<open>num_tokens\<close> calls \<open>tiktoken.encoding_for_model\<close> once and, if that
  returned, \<open>encode\<close> once; an error of either is the error of \<open>num_tokens\<close>, and no
  call is made after an error.
\<close>

theorem no_retry_errors_propagate:
  "emitted (ask env query model) h = [ChatCompletionsCreate (ask_request query model)] \<and>
   (chat_completions_create env h (ask_request query model) = Inl e \<longrightarrow>
      snd (ask env query model h) = Inl e) \<and>
   emitted (create_embeddings env texts embedding_model) h =
     [EmbeddingsCreate texts embedding_model] \<and>
   (embeddings_create env h texts embedding_model = Inl e \<longrightarrow>
      snd (create_embeddings env texts embedding_model h) = Inl e) \<and>
   emitted (ask_with_context env query context model) h =
     [ChatCompletionsCreate
        (ask_request (introduction @ join ''\<newline>\<newline>'' context @ question query) model)] \<and>
   (chat_completions_create env h
      (ask_request (introduction @ join ''\<newline>\<newline>'' context @ question query) model) = Inl e \<longrightarrow>
      snd (ask_with_context env query context model h) = Inl e) \<and>
   (encoding_for_model env h model = Inl e \<longrightarrow>
      emitted (num_tokens env text model) h = [EncodingForModel model] \<and>
      snd (num_tokens env text model h) = Inl e) \<and>
   (encoding_for_model env h model = Inr encoding \<longrightarrow>
      emitted (num_tokens env text model) h = [EncodingForModel model, Encode encoding text] \<and>
      (encode env (h @ [EncodingForModel model]) encoding text = Inl e \<longrightarrow>
         snd (num_tokens env text model h) = Inl e))"
  by (simp add: emitted_def ask_run ask_with_context_def create_embeddings_def call_def
      num_tokens_run)

text \<open>
  With the remote services unreachable, and with a tokenizer whose \<open>encode\<close> fails.
\<close>

theorem no_retry_errors_propagate_witness:
  "snd (ask offline_env the_query MODEL []) = Inl (SdkError ''APIConnectionError'') \<and>
   emitted (ask offline_env the_query MODEL) [] =
     [ChatCompletionsCreate (ask_request the_query MODEL)] \<and>
   snd (create_embeddings offline_env [the_query] EMBEDDING_MODEL []) =
     Inl (SdkError ''APIConnectionError'') \<and>
   snd (ask_with_context offline_env the_query [] MODEL []) =
     Inl (SdkError ''APIConnectionError'') \<and>
   snd (num_tokens offline_env ''abc'' MODEL []) = Inl (SdkError ''APIConnectionError'') \<and>
   emitted (num_tokens encoder_fails_env ''abc'' MODEL) [] =
     [EncodingForModel MODEL, Encode ''cl100k_base'' ''abc''] \<and>
   snd (num_tokens encoder_fails_env ''abc'' MODEL []) = Inl (SdkError ''ValueError'')"
proof -
  let ?down = "SdkError ''APIConnectionError''"
  have chat: "chat_completions_create offline_env [] request = Inl ?down" for request
    by (simp add: offline_env_def)
  have embed: "embeddings_create offline_env [] [the_query] EMBEDDING_MODEL = Inl ?down"
    by (simp add: offline_env_def)
  have enc: "encoding_for_model offline_env [] MODEL = Inl ?down"
    by (simp add: offline_env_def)
  have enc': "encoding_for_model encoder_fails_env [] MODEL = Inr ''cl100k_base''"
    by (simp add: encoder_fails_env_def demo_env_def)
  have encode: "encode encoder_fails_env ([] @ [EncodingForModel MODEL]) ''cl100k_base'' ''abc'' =
      Inl (SdkError ''ValueError'')"
    by (simp add: encoder_fails_env_def)
  from no_retry_errors_propagate [of offline_env the_query MODEL "[]" ?down "[the_query]"
      EMBEDDING_MODEL "[]" "''abc''" "''cl100k_base''"] chat embed enc
  have "snd (ask offline_env the_query MODEL []) = Inl ?down"
    "emitted (ask offline_env the_query MODEL) [] =
       [ChatCompletionsCreate (ask_request the_query MODEL)]"
    "snd (create_embeddings offline_env [the_query] EMBEDDING_MODEL []) = Inl ?down"
    "snd (ask_with_context offline_env the_query [] MODEL []) = Inl ?down"
    "snd (num_tokens offline_env ''abc'' MODEL []) = Inl ?down"
    by simp_all
  moreover
  from no_retry_errors_propagate [of encoder_fails_env the_query MODEL "[]"
      "SdkError ''ValueError''" "[the_query]" EMBEDDING_MODEL "[]" "''abc''" "''cl100k_base''"]
    enc' encode
  have "emitted (num_tokens encoder_fails_env ''abc'' MODEL) [] =
          [EncodingForModel MODEL, Encode ''cl100k_base'' ''abc'']"
    "snd (num_tokens encoder_fails_env ''abc'' MODEL []) = Inl (SdkError ''ValueError'')"
    by simp_all
  ultimately show ?thesis by simp
qed

text \<open>
  C5. \<open>ask_with_context(query, context, model)\<close> is \<open>ask\<close> on the introduction, the
  context strings joined by two newlines, and the question block, with the same model. The
  introduction begins "Use the below writing from Paul Graham". The one request made has
  the system message and that prompt as user message; with an empty context list it is the
  introduction followed by the question block.
\<close>

theorem ask_with_context_prompt:
  "ask_with_context env query context model =
     ask env (introduction @ join ''\<newline>\<newline>'' context @
              ''\<newline>\<newline>Question: '' @ query @ ''\<newline>\<newline>'') model
   \<and> introduction =
       ''Use the below writing from Paul Graham'' @
       '' to answer the subsequent question. If the answer cannot be found in the articles, write '' @
       [CHR 0x22] @ ''I could not find an answer.''
   \<and> emitted (ask_with_context env query context model) h =
       [ChatCompletionsCreate
          \<lparr>chat_model = model,
           chat_messages =
             [[''role'' \<mapsto> ''system'', ''content'' \<mapsto> ''You are a helpful assistant.''],
              [''role'' \<mapsto> ''user'',
               ''content'' \<mapsto> introduction @ join ''\<newline>\<newline>'' context @
                  ''\<newline>\<newline>Question: '' @ query @ ''\<newline>\<newline>'']],
           chat_temperature = 0\<rparr>]
   \<and> emitted (ask_with_context env query [] model) h =
       [ChatCompletionsCreate
          (ask_request (introduction @ ''\<newline>\<newline>Question: '' @ query @ ''\<newline>\<newline>'') model)]"
  by (simp add: ask_with_context_def question_def emitted_def ask_run ask_request_def
      introduction_def)

text \<open>
  C6. The chunking step is the imported splitter and nothing else: one call of
  \<open>create_documents\<close> on the single document with chunk size 1024, overlap 96, \<open>len\<close>
  and no regex separators, and its outcome is \<open>chunking_spec\<close>, the splitter's documents
  with \<open>context_text\<close> their page contents in order.
\<close>

theorem chunking_is_create_documents:
  "chunking env text h =
     (h @ [CreateDocuments
             \<lparr>chunk_size = 1024, chunk_overlap = 96, length_function = length,
              is_separator_regex = False\<rparr> [text]],
      chunking_spec env text h)"
  by (simp add: chunking_def chunking_spec_def text_splitter_def bind_def call_def return_def
      split: sum.splits)

text \<open>
  C7, as stated: no cell reads or writes the local file system. The search notebook reads
  the essay with \<open>Path.read_text\<close>, every notebook loads \<open>.env\<close>, and the tokenizer
  lookup uses tiktoken's cache directory, so the calls of a run are not free of file access.
\<close>

theorem no_file_access_counterexample:
  "\<not> file_free (emitted (search_101 demo_env) [])"
  by (simp add: file_free_def emitted_def prog_defs cell_defs demo_defs Let_def upt_rec)

text \<open>
  C7, amended. Whatever the libraries answer, each notebook only adds to the calls made,
  and every call it adds is \<open>permitted\<close>: one of the calls listed there, with the arguments
  listed there, and never a file write by a cell. Counting as file access what a call is
  for (\<open>touches_files\<close>), the calls that access the local file system are, in the search
  notebook and in this order, \<open>load_dotenv\<close>, the read of the
  essay and \<open>tiktoken.encoding_for_model(MODEL)\<close>: each at most once, an initial part of
  this list when the run stops early, and all three when the run completes. The only call
  that can write a file is the tokenizer lookup (its cache). The two other notebooks access
  the file system through \<open>load_dotenv\<close> only.
\<close>

theorem notebooks_effects:
  "fst (search_101 env h) = h @ emitted (search_101 env) h \<and>
   list_all permitted (emitted (search_101 env) h) \<and>
   filter touches_files (emitted (search_101 env) h) \<in>
     {[LoadDotenv], [LoadDotenv, ReadText essay_path],
      [LoadDotenv, ReadText essay_path, EncodingForModel MODEL]} \<and>
   (snd (search_101 env h) = Inr g \<longrightarrow>
      filter touches_files (emitted (search_101 env) h) =
        [LoadDotenv, ReadText essay_path, EncodingForModel MODEL]) \<and>
   filter writes_files (emitted (search_101 env) h) \<in> {[], [EncodingForModel MODEL]} \<and>
   fst (course_introduction env h) = h @ emitted (course_introduction env) h \<and>
   list_all permitted (emitted (course_introduction env) h) \<and>
   filter touches_files (emitted (course_introduction env) h) = [LoadDotenv] \<and>
   filter writes_files (emitted (course_introduction env) h) = [] \<and>
   fst (chat_examples env h) = h @ emitted (chat_examples env) h \<and>
   list_all permitted (emitted (chat_examples env) h) \<and>
   filter touches_files (emitted (chat_examples env) h) = [LoadDotenv] \<and>
   filter writes_files (emitted (chat_examples env) h) = []"
proof -
  let ?s = "emitted (search_101 env) h"
  have files: "filter touches_files ?s \<in>
     {[LoadDotenv], [LoadDotenv, ReadText essay_path],
      [LoadDotenv, ReadText essay_path, EncodingForModel MODEL]}"
    by (simp add: files_search_101 split: sum.splits)
  have completed: "filter touches_files ?s =
      [LoadDotenv, ReadText essay_path, EncodingForModel MODEL]"
    if "snd (search_101 env h) = Inr g"
    using files_completed_search_101 [of env h "fst (search_101 env h)" g] that
    by (simp add: prod_eq_iff)
  have writes: "filter writes_files ?s \<in> {[], [EncodingForModel MODEL]}"
    using files by (auto dest: writes_of_files)
  have others: "filter writes_files (emitted (course_introduction env) h) = []"
    "filter writes_files (emitted (chat_examples env) h) = []"
    using writes_of_files [OF files_course_introduction, of env h]
      writes_of_files [OF files_chat_examples, of env h]
    by simp_all
  show ?thesis
    using emits_emitted [OF emits_search_101, of env h]
      emits_emitted [OF emits_course_introduction, of env h]
      emits_emitted [OF emits_chat_examples, of env h]
      files completed writes others files_course_introduction [of env h]
      files_chat_examples [of env h]
    by simp
qed

text \<open>
  The run in the small environment completes and makes all three file accesses.
\<close>

theorem notebooks_effects_witness:
  "snd (search_101 demo_env []) = Inr demo_globals \<and>
   list_all permitted (emitted (search_101 demo_env) []) \<and>
   filter touches_files (emitted (search_101 demo_env) []) =
     [LoadDotenv, ReadText essay_path, EncodingForModel MODEL]"
  using notebooks_effects [of demo_env "[]" demo_globals] demo_result by simp

text \<open>
  C8. The uploaded points are index-aligned with the chunks. In a run that completes,
  with \<open>n = len(vectors)\<close>: the points uploaded to \<open>demo\<close> have the ids \<open>0, ..., n-1\<close> in
  order, the vectors are the embeddings returned for \<open>context_text\<close>, and point \<open>i\<close> carries
  \<open>vectors[i]\<close> and the payload \<open>{"content": texts[i].page_content}\<close>, which is
  \<open>context_text[i]\<close>.
\<close>

theorem points_are_index_aligned:
  assumes run: "search_101 env h = (h', Inr g)"
  shows "UploadPoints ''demo'' (g_points g) \<in> set h' \<and>
         length (g_points g) = length (g_vectors g) \<and>
         map point_id (g_points g) = map int [0..<length (g_vectors g)] \<and>
         (\<exists>hs. embeddings_create env hs (g_context_text g) EMBEDDING_MODEL = Inr (g_response g)) \<and>
         (\<forall>i<length (g_vectors g).
            i < length (g_texts g) \<and>
            point_id (g_points g ! i) = int i \<and>
            point_vector (g_points g ! i) = g_vectors g ! i \<and>
            g_vectors g ! i = embedding (data (g_response g) ! i) \<and>
            payload (g_points g ! i) = [''content'' \<mapsto> page_content (g_texts g ! i)] \<and>
            g_context_text g ! i = page_content (g_texts g ! i))"
proof -
  from run obtain h4 h5 h6 h7 h8 h9 h10 where
    chunk: "cell_chunk env (g_text g) h4 = (h5, Inr (g_texts g, g_context_text g))" and
    embed: "cell_embed env (g_context_text g) h5 = (h6, Inr (g_response g))" and
    vecs: "cell_vectors (g_response g) h6 = (h7, Inr (g_vectors g))" and
    index: "cell_index env (g_vectors g) (g_texts g) h7 = (h8, Inr (g_points g))" and
    query: "cell_query env h8 = (h9, Inr (g_query_vector g))" and
    srch: "cell_search env (g_query_vector g) h9 =
       (h10, Inr (g_search_results g, g_neighbors g, g_distances g))" and
    answer: "cell_answer env (g_context_text g) (g_neighbors g) h10 =
       (h', Inr (g_selected_context g, g_answer g))"
    by (rule search_101_Inr)
  let ?n = "length (g_vectors g)"
  have ctx: "g_context_text g = map page_content (g_texts g)"
    using cell_chunk_Inr(2) [OF chunk] .
  have vs: "g_vectors g = map embedding (data (g_response g))"
    using cell_vectors_Inr [OF vecs] .
  have mk: "make_points (g_vectors g) (g_texts g) = Inr (g_points g)"
    using cell_index_Inr(1) [OF index] .
  have len: "length (g_points g) = ?n" and le: "?n \<le> length (g_texts g)"
    using make_points_Inr(1,2) [OF mk] by simp_all
  have pt: "g_points g ! i = \<lparr>point_id = int i, point_vector = g_vectors g ! i,
                         payload = [''content'' \<mapsto> page_content (g_texts g ! i)]\<rparr>"
    if "i < ?n" for i
    using make_points_Inr(3) [OF mk that] .
  have ids: "map point_id (g_points g) = map int [0..<?n]"
    by (rule nth_equalityI) (simp_all add: len pt)
  from answer obtain es where "h' = h10 @ es"
    by (rule cell_answer_Inr) simp
  then have up: "UploadPoints ''demo'' (g_points g) \<in> set h'"
    using cell_index_Inr(2) [OF index] cell_query_Inr [OF query] cell_search_Inr(4) [OF srch]
    by simp
  have emb: "\<exists>hs. embeddings_create env hs (g_context_text g) EMBEDDING_MODEL = Inr (g_response g)"
    using cell_embed_Inr [OF embed] by blast
  have "i < length (g_texts g) \<and>
            point_id (g_points g ! i) = int i \<and>
            point_vector (g_points g ! i) = g_vectors g ! i \<and>
            g_vectors g ! i = embedding (data (g_response g) ! i) \<and>
            payload (g_points g ! i) = [''content'' \<mapsto> page_content (g_texts g ! i)] \<and>
            g_context_text g ! i = page_content (g_texts g ! i)"
    if "i < ?n" for i
    using that le pt [OF that] vs ctx by simp
  with up len ids emb show ?thesis by blast
qed

text \<open>
  The second point of the run in the small environment.
\<close>

theorem points_are_index_aligned_witness:
  "(1::nat) < length (g_vectors demo_globals) \<and>
   point_id (g_points demo_globals ! 1) = 1 \<and>
   point_vector (g_points demo_globals ! 1) = [18, 1] \<and>
   payload (g_points demo_globals ! 1) = [''content'' \<mapsto> page_content (g_texts demo_globals ! 1)] \<and>
   g_context_text demo_globals ! 1 = ''Then Y Combinator.''"
proof -
  have one: "(1::nat) < length (g_vectors demo_globals)"
    by (simp add: demo_globals_def)
  with points_are_index_aligned [OF demo_run]
  have "point_id (g_points demo_globals ! 1) = int 1 \<and>
        point_vector (g_points demo_globals ! 1) = g_vectors demo_globals ! 1 \<and>
        payload (g_points demo_globals ! 1) =
          [''content'' \<mapsto> page_content (g_texts demo_globals ! 1)]"
    by blast
  with one show ?thesis by (simp add: demo_globals_def)
qed

end
